theory Spec2Isabelle
  imports Complex_Main
begin

section \<open>The dashboard page of the machine vision system\<close>

text \<open>
  The repository's executable code is the dashboard page component \<open>Home\<close> together
  with the database schema that seeds the settings table. The middleware and the
  backend are not part of the repository. The page exists in two versions. The one
  modelled here is the later one (621 lines): it has the test mode, \<open>addLog\<close>, the
  \<open>ApiResponse\<close> envelope, the log actions and the guard in \<open>handleCapture\<close>. The
  earlier one (\<open>frontend/src/pages/index.tsx\<close>, 347 lines) has none of these: it never
  writes to the log list itself, and it reads the settings response as
  \<open>response.data.settings\<close>.

  The component is modelled as a state machine. Its state is the record of the values
  held by \<open>useState\<close> and \<open>useRef\<close>; every event handler of the page is a function from
  the committed state to the next state and the list of effects it issues (requests,
  socket messages, timers, clipboard writes, \<open>console.error\<close> lines). A handler that
  awaits a promise is split at the \<open>await\<close>: the part before it is one step, the
  continuation is a step of its own that takes the promise's outcome. Each handler reads
  the state of the render it was created in, and React re-renders between two events,
  so a step reads the state the previous step left.

  JavaScript numbers are modelled as reals (the decimal literals of the source denote
  the reals they are written as; \<open>NaN\<close> and the infinities are left out), timestamps in
  milliseconds as integers. What \<open>new Date().toISOString()\<close> and \<open>Date.now()\<close> return
  is an input of the step that calls them. \<open>console.log\<close> lines are not modelled.
\<close>

subsection \<open>Types of the page\<close>

record LogMessage =
  timestamp :: string
  level :: string
  message :: string
  module :: "string option"

record CaptureResult =
  success :: bool
  original_image :: string
  processed_image :: string
  result :: string
  confidence :: real
  processed_image_url :: "string option"
  error :: "string option"

record BackendStatus =
  camera_connected :: bool
  model_loaded :: bool

text \<open>
  A response body is JSON. The fields that the interface \<open>ApiResponse<T>\<close> declares
  (\<open>success\<close>, \<open>data?\<close>, \<open>error?\<close>) are the fields the page reads; a body may carry further
  top-level keys, which TypeScript's types do not exclude at run time and which no
  handler reads. They are kept in \<open>api_other\<close> as plain JSON. A declared key that a
  body carries is taken to hold a value of its declared type.
\<close>

datatype json =
    JNull
  | JBool bool
  | JNum real
  | JStr string
  | JArr "json list"
  | JObj "(string \<times> json) list"

record 'a ApiResponse =
  api_success :: bool
  api_data :: "'a option"
  api_error :: "string option"
  api_other :: "(string \<times> json) list"

text \<open>
  \<open>SettingsData\<close> declares \<open>confidence_threshold: number\<close>; \<open>loadSettings\<close> nevertheless
  tests it against \<open>undefined\<close>, so the field is optional in the model.
\<close>

record SettingsObject =
  confidence_threshold :: "real option"

record SettingsData =
  settings :: SettingsObject

text \<open>
  The outcome of an axios call: the promise resolves with a body, or it rejects (the
  network failed, or the status was not 2xx) with an error whose \<open>message\<close> may be
  missing.
\<close>

datatype 'a axios = Resolved 'a | Rejected "string option"

text \<open>What the clock returns when a handler reads it.\<close>

record clock =
  now :: int
  iso :: string

subsection \<open>The state of the component\<close>

record Home =
  isConnected :: bool
  logs :: "LogMessage list"
  isCapturing :: bool
  captureResult :: "CaptureResult option"
  confidenceThreshold :: real
  backendStatus :: BackendStatus
  processingTime :: "int option"
  copySuccess :: string
  selectedTab :: string
  isTestMode :: bool
  captureStartTime :: "int option"

definition Home_init :: Home where
  "Home_init =
     \<lparr> isConnected = False, logs = [], isCapturing = False, captureResult = None,
       confidenceThreshold = 0.5,
       backendStatus = \<lparr> camera_connected = False, model_loaded = False \<rparr>,
       processingTime = None, copySuccess = [], selectedTab = ''original'',
       isTestMode = False, captureStartTime = None \<rparr>"

subsection \<open>Strings built by the handlers\<close>

text \<open>\<open>a || b\<close> on an optional string: the empty string and \<open>undefined\<close> are falsy.\<close>

definition or_default :: "string option \<Rightarrow> string \<Rightarrow> string" where
  "or_default a b = (case a of None \<Rightarrow> b | Some x \<Rightarrow> if x = [] then b else x)"

definition digit_char :: "nat \<Rightarrow> char" where
  "digit_char d = ''0123456789'' ! d"

fun show_nat :: "nat \<Rightarrow> string" where
  "show_nat n = (if n < 10 then [digit_char n] else show_nat (n div 10) @ [digit_char (n mod 10)])"

text \<open>
  \<open>x.toFixed(2)\<close>: the integer \<open>n\<close> for which \<open>n / 100\<close> is closest to \<open>x\<close> (the larger
  one of two), printed with two digits after the point; a negative \<open>x\<close> prints as \<open>-\<close>
  followed by the text of \<open>-x\<close>. (For \<open>x\<close> from \<open>10^21\<close> on JavaScript prints in
  exponent notation instead; the page only prints thresholds and confidences times
  100 this way.)

  JavaScript applies this rule to the exact value of a double. The model applies it to
  the real that the literal denotes and to exact products, so where the double lies on
  the other side of a rounding tie the last digit of the text differs: the page prints
  \<open>0.145\<close> as \<open>0.14\<close> and \<open>0.00075 * 100\<close> as \<open>0.07\<close>, the model as \<open>0.15\<close> and
  \<open>0.08\<close>. Only the texts of log messages are built with it, and no property below is
  about the text of a message.
\<close>

definition toFixed2 :: "real \<Rightarrow> string" where
  "toFixed2 x =
     (let a = \<bar>x\<bar>;
          n = nat \<lfloor>a * 100 + 1 / 2\<rfloor>
      in (if x < 0 then ''-'' else []) @ show_nat (n div 100) @ ''.'' @
         [digit_char (n mod 100 div 10), digit_char (n mod 10)])"

subsection \<open>The log list\<close>

text \<open>\<open>addLog\<close>: \<open>setLogs(prevLogs => [...prevLogs, logMessage])\<close>.\<close>

definition addLog :: "LogMessage \<Rightarrow> Home \<Rightarrow> Home" where
  "addLog logMessage s = s\<lparr> logs := logs s @ [logMessage] \<rparr>"

subsection \<open>Effects\<close>

text \<open>
  What a handler asks of the outside world. The two URLs are fixed by the page:
  \<open>GET /api/settings\<close>, \<open>POST /api/capture\<close> and \<open>POST /api/settings\<close>, the two
  posts with the body \<open>{confidence_threshold: v}\<close>.
\<close>

datatype timer = BackendStatusTimer | MockCaptureTimer | CopySuccessTimer

datatype effect =
    SocketOpen
  | SocketEmit string
  | HttpGetSettings
  | HttpPostCapture real
  | HttpPostSettings real
  | SetTimeout timer nat
  | ClipboardWrite string
  | ConsoleError string

subsection \<open>Socket handlers\<close>

definition on_connect :: "clock \<Rightarrow> Home \<Rightarrow> Home \<times> effect list" where
  "on_connect c s =
     (addLog \<lparr> timestamp = iso c, level = ''INFO'', message = ''Connected to server'',
               module = Some ''frontend'' \<rparr>
        (s\<lparr> isConnected := True \<rparr>),
      [SocketEmit ''get_status'', SocketEmit ''get_logs''])"

definition on_disconnect :: "clock \<Rightarrow> Home \<Rightarrow> Home \<times> effect list" where
  "on_disconnect c s =
     (addLog \<lparr> timestamp = iso c, level = ''WARNING'', message = ''Disconnected from server'',
               module = Some ''frontend'' \<rparr>
        (s\<lparr> isConnected := False \<rparr>),
      [])"

definition on_connect_error :: "string \<Rightarrow> clock \<Rightarrow> Home \<Rightarrow> Home \<times> effect list" where
  "on_connect_error msg c s =
     (addLog \<lparr> timestamp = iso c, level = ''ERROR'',
               message = ''WebSocket connection error: '' @ msg @ ''. Switched to test mode.'',
               module = Some ''frontend'' \<rparr>
        (s\<lparr> isConnected := False, isTestMode := True \<rparr>),
      [ConsoleError ''WebSocket connection error:'', SetTimeout BackendStatusTimer 1000])"

text \<open>The timer of \<open>connect_error\<close>: the simulated backend status.\<close>

definition on_backend_status_timer :: "Home \<Rightarrow> Home \<times> effect list" where
  "on_backend_status_timer s =
     (s\<lparr> backendStatus := \<lparr> camera_connected = True, model_loaded = True \<rparr> \<rparr>, [])"

definition on_status_update :: "BackendStatus \<Rightarrow> Home \<Rightarrow> Home \<times> effect list" where
  "on_status_update status s = (s\<lparr> backendStatus := status \<rparr>, [])"

definition on_log_message :: "LogMessage \<Rightarrow> Home \<Rightarrow> Home \<times> effect list" where
  "on_log_message logMessage s = (addLog logMessage s, [])"

text \<open>\<open>log_history\<close>: \<open>setLogs(data.logs)\<close>.\<close>

definition on_log_history :: "LogMessage list \<Rightarrow> Home \<Rightarrow> Home \<times> effect list" where
  "on_log_history data_logs s = (s\<lparr> logs := data_logs \<rparr>, [])"

definition on_capture_started :: "clock \<Rightarrow> Home \<Rightarrow> Home \<times> effect list" where
  "on_capture_started c s = (s\<lparr> captureStartTime := Some (now c) \<rparr>, [])"

text \<open>
  \<open>capture_result\<close>. The test \<open>if (captureStartTime.current)\<close> is on a number or
  \<open>null\<close>: \<open>null\<close> and \<open>0\<close> are falsy.
\<close>

definition capture_result_message :: "CaptureResult \<Rightarrow> string" where
  "capture_result_message r =
     (if success r
      then ''Capture completed successfully. Result: '' @ result r @ '' (Confidence: '' @
           toFixed2 (confidence r * 100) @ ''%)''
      else ''Capture failed: '' @ or_default (error r) ''Unknown error'')"

definition on_capture_result :: "CaptureResult \<Rightarrow> clock \<Rightarrow> Home \<Rightarrow> Home \<times> effect list" where
  "on_capture_result r c s =
     (let s1 = (case captureStartTime s of
                  None \<Rightarrow> s
                | Some t \<Rightarrow>
                    if t = 0 then s
                    else s\<lparr> processingTime := Some (now c - t), captureStartTime := None \<rparr>);
          s2 = s1\<lparr> captureResult := Some r, isCapturing := False \<rparr>
      in (addLog \<lparr> timestamp = iso c,
                    level = (if success r then ''SUCCESS'' else ''ERROR''),
                    message = capture_result_message r,
                    module = Some ''capture'' \<rparr> s2,
          []))"

subsection \<open>Settings\<close>

text \<open>
  \<open>loadSettings\<close> after its \<open>await\<close>. The condition is
  \<open>response.data.success && response.data.data?.settings.confidence_threshold !== undefined\<close>:
  with no \<open>data\<close> key the optional chain is \<open>undefined\<close> and the threshold stays.
\<close>

definition loadSettings :: "SettingsData ApiResponse axios \<Rightarrow> clock \<Rightarrow> Home \<Rightarrow> Home \<times> effect list" where
  "loadSettings outcome c s =
     (case outcome of
        Resolved body \<Rightarrow>
          (if api_success body
           then (case api_data body of
                   None \<Rightarrow> (s, [])
                 | Some d \<Rightarrow>
                     (case confidence_threshold (settings d) of
                        None \<Rightarrow> (s, [])
                      | Some v \<Rightarrow> (s\<lparr> confidenceThreshold := v \<rparr>, [])))
           else (s, []))
      | Rejected err \<Rightarrow>
          (addLog \<lparr> timestamp = iso c, level = ''ERROR'',
                    message = ''Failed to load settings. Switched to test mode.'',
                    module = Some ''frontend'' \<rparr>
             (s\<lparr> isTestMode := True \<rparr>),
           [ConsoleError ''Error loading settings:'']))"

text \<open>\<open>saveThreshold(value)\<close> up to its \<open>await\<close>, and after it.\<close>

definition saveThreshold :: "real \<Rightarrow> clock \<Rightarrow> Home \<Rightarrow> Home \<times> effect list" where
  "saveThreshold v c s =
     (if isTestMode s
      then (addLog \<lparr> timestamp = iso c, level = ''SUCCESS'',
                      message = ''Test Mode: Confidence threshold updated to '' @ toFixed2 v,
                      module = Some ''settings'' \<rparr>
              (s\<lparr> confidenceThreshold := v \<rparr>),
            [])
      else (s, [HttpPostSettings v]))"

definition saveThreshold_response ::
  "real \<Rightarrow> unit ApiResponse axios \<Rightarrow> clock \<Rightarrow> Home \<Rightarrow> Home \<times> effect list" where
  "saveThreshold_response v outcome c s =
     (case outcome of
        Resolved body \<Rightarrow>
          (if api_success body
           then (addLog \<lparr> timestamp = iso c, level = ''SUCCESS'',
                           message = ''Confidence threshold updated to '' @ toFixed2 v,
                           module = Some ''settings'' \<rparr> s,
                 [])
           else (addLog \<lparr> timestamp = iso c, level = ''ERROR'',
                           message = ''Failed to update threshold: '' @
                                     or_default (api_error body) ''Unknown error'',
                           module = Some ''settings'' \<rparr> s,
                 [ConsoleError ''Error saving threshold:'']))
      | Rejected err \<Rightarrow>
          (addLog \<lparr> timestamp = iso c, level = ''ERROR'',
                    message = ''Failed to update threshold: '' @
                              or_default err ''Network error'' @ ''. Switched to test mode.'',
                    module = Some ''settings'' \<rparr>
             (s\<lparr> isTestMode := True \<rparr>),
           [ConsoleError ''Error saving threshold:'']))"

text \<open>
  The threshold slider: \<open><input type="range" min="0" max="1" step="0.01">\<close>. Its
  \<open>onChange\<close> stores \<open>parseFloat(e.target.value)\<close>, its \<open>onMouseUp\<close> calls
  \<open>saveThreshold(confidenceThreshold)\<close>. A range input offers the values
  \<open>min + k * step\<close> that do not exceed \<open>max\<close>.
\<close>

definition slider_min :: real where "slider_min = 0"
definition slider_max :: real where "slider_max = 1"
definition slider_step :: real where "slider_step = 0.01"

definition slider_value :: "nat \<Rightarrow> real" where
  "slider_value k = slider_min + real k * slider_step"

definition slider_offers :: "nat \<Rightarrow> bool" where
  "slider_offers k = (slider_value k \<le> slider_max)"

definition slider_onChange :: "real \<Rightarrow> Home \<Rightarrow> Home \<times> effect list" where
  "slider_onChange v s = (s\<lparr> confidenceThreshold := v \<rparr>, [])"

definition slider_onMouseUp :: "clock \<Rightarrow> Home \<Rightarrow> Home \<times> effect list" where
  "slider_onMouseUp c s = saveThreshold (confidenceThreshold s) c s"

subsection \<open>Log actions\<close>

text \<open>
  \<open>copyLogsToClipboard\<close>: one line per entry, joined by newlines, handed to
  \<open>navigator.clipboard.writeText\<close>; then the two callbacks of that promise, and the
  timer that clears \<open>Copied!\<close>.
\<close>

definition log_line :: "LogMessage \<Rightarrow> string" where
  "log_line l =
     ''['' @ timestamp l @ ''] ['' @ level l @ ''] ['' @ or_default (module l) ''unknown'' @
     ''] '' @ message l"

fun join_lines :: "string list \<Rightarrow> string" where
  "join_lines [] = []"
| "join_lines [x] = x"
| "join_lines (x # y # ys) = x @ [CHR 0x0A] @ join_lines (y # ys)"

definition copyLogsToClipboard :: "Home \<Rightarrow> Home \<times> effect list" where
  "copyLogsToClipboard s = (s, [ClipboardWrite (join_lines (map log_line (logs s)))])"

definition copyLogs_then :: "Home \<Rightarrow> Home \<times> effect list" where
  "copyLogs_then s = (s\<lparr> copySuccess := ''Copied!'' \<rparr>, [SetTimeout CopySuccessTimer 2000])"

definition copyLogs_catch :: "Home \<Rightarrow> Home \<times> effect list" where
  "copyLogs_catch s = (s, [ConsoleError ''Failed to copy logs:''])"

definition on_copy_success_timer :: "Home \<Rightarrow> Home \<times> effect list" where
  "on_copy_success_timer s = (s\<lparr> copySuccess := [] \<rparr>, [])"

definition clearLogs :: "clock \<Rightarrow> Home \<Rightarrow> Home \<times> effect list" where
  "clearLogs c s =
     (addLog \<lparr> timestamp = iso c, level = ''INFO'', message = ''Logs cleared'',
               module = Some ''frontend'' \<rparr>
        (s\<lparr> logs := [] \<rparr>),
      [])"

definition selectTab :: "string \<Rightarrow> Home \<Rightarrow> Home \<times> effect list" where
  "selectTab tab s = (s\<lparr> selectedTab := tab \<rparr>, [])"

subsection \<open>Capture\<close>

definition placeholder_image :: string where
  "placeholder_image =
     ''iVBORw0KGgoAAAANSUhEUgAAASwAAACoCAMAAABt9SM9AAAAA1BMVEX///+nxBvIAAAAR0lEQVR4nO3BAQEAAACCIP+vbkhAAQAAAAAAAAAAAAAAAAAAAAAAAAAAAAAAAAAAAAAAAAAAAAAAAAAAAAAAAAAAAAAAAO8GxYgAAb0jQ/cAAAAASUVORK5CYII=''"

text \<open>The result that the test mode makes up.\<close>

definition mockResult :: CaptureResult where
  "mockResult =
     \<lparr> success = True, original_image = placeholder_image,
       processed_image = placeholder_image, result = ''PASS'', confidence = 0.85,
       processed_image_url = None, error = None \<rparr>"

text \<open>
  \<open>handleCapture\<close> up to its \<open>await\<close>. It returns at once while a capture is in
  progress. In test mode it only sets the timer of 1500 ms; otherwise it posts the
  current threshold.
\<close>

definition handleCapture :: "clock \<Rightarrow> Home \<Rightarrow> Home \<times> effect list" where
  "handleCapture c s =
     (if isCapturing s then (s, [])
      else
        (addLog \<lparr> timestamp = iso c, level = ''INFO'',
                  message = ''Initiating image capture and processing'',
                  module = Some ''frontend'' \<rparr>
           (s\<lparr> isCapturing := True, captureStartTime := Some (now c) \<rparr>),
         if isTestMode s then [SetTimeout MockCaptureTimer 1500]
         else [HttpPostCapture (confidenceThreshold s)]))"

text \<open>The callback of the test mode's timer.\<close>

definition handleCapture_timeout :: "clock \<Rightarrow> Home \<Rightarrow> Home \<times> effect list" where
  "handleCapture_timeout c s =
     (addLog \<lparr> timestamp = iso c, level = ''SUCCESS'',
               message = ''Test Mode: Simulated capture completed. Result: '' @
                         result mockResult @ '' (Confidence: '' @
                         toFixed2 (confidence mockResult * 100) @ ''%)'',
               module = Some ''capture'' \<rparr>
        (s\<lparr> processingTime := Some 1500, captureResult := Some mockResult,
            isCapturing := False \<rparr>),
      [])"

text \<open>
  \<open>handleCapture\<close> after \<open>await axios.post(...)\<close>: only \<open>!response.data.success\<close> is
  acted on; a rejected promise lands in the \<open>catch\<close>.
\<close>

definition handleCapture_response ::
  "CaptureResult ApiResponse axios \<Rightarrow> clock \<Rightarrow> Home \<Rightarrow> Home \<times> effect list" where
  "handleCapture_response outcome c s =
     (case outcome of
        Resolved body \<Rightarrow>
          (if \<not> api_success body
           then (addLog \<lparr> timestamp = iso c, level = ''ERROR'',
                           message = ''Capture request failed: '' @
                                     or_default (api_error body) ''Unknown error'',
                           module = Some ''frontend'' \<rparr>
                   (s\<lparr> isCapturing := False, captureStartTime := None \<rparr>),
                 [])
           else (s, []))
      | Rejected err \<Rightarrow>
          (addLog \<lparr> timestamp = iso c, level = ''ERROR'',
                    message = ''Capture request error: '' @ or_default err ''Network error'' @
                              ''. Switched to test mode.'',
                    module = Some ''frontend'' \<rparr>
             (s\<lparr> isCapturing := False, captureStartTime := None, isTestMode := True \<rparr>),
           [ConsoleError ''Error capturing image:'']))"

subsection \<open>The page as a state machine\<close>

text \<open>
  Mounting the page opens the socket and starts \<open>loadSettings\<close>. From then on the page
  reacts to events: socket events, the outcomes of its own requests and timers, and the
  user's clicks.
\<close>

definition mount :: "Home \<times> effect list" where
  "mount = (Home_init, [SocketOpen, HttpGetSettings])"

datatype event =
    Connect clock
  | Disconnect clock
  | ConnectError string clock
  | BackendStatusTimeout
  | StatusUpdate BackendStatus
  | LogMessageEvent LogMessage
  | LogHistory "LogMessage list"
  | CaptureStarted clock
  | CaptureResultEvent CaptureResult clock
  | SettingsOutcome "SettingsData ApiResponse axios" clock
  | SliderChange real
  | SliderMouseUp clock
  | SaveOutcome real "unit ApiResponse axios" clock
  | CopyClick
  | CopyResolved
  | CopyRejected
  | CopySuccessTimeout
  | ClearClick clock
  | TabClick string
  | CaptureClick clock
  | MockCaptureTimeout clock
  | CaptureOutcome "CaptureResult ApiResponse axios" clock

fun step :: "event \<Rightarrow> Home \<Rightarrow> Home \<times> effect list" where
  "step (Connect c) s = on_connect c s"
| "step (Disconnect c) s = on_disconnect c s"
| "step (ConnectError msg c) s = on_connect_error msg c s"
| "step BackendStatusTimeout s = on_backend_status_timer s"
| "step (StatusUpdate status) s = on_status_update status s"
| "step (LogMessageEvent l) s = on_log_message l s"
| "step (LogHistory ls) s = on_log_history ls s"
| "step (CaptureStarted c) s = on_capture_started c s"
| "step (CaptureResultEvent r c) s = on_capture_result r c s"
| "step (SettingsOutcome outcome c) s = loadSettings outcome c s"
| "step (SliderChange v) s = slider_onChange v s"
| "step (SliderMouseUp c) s = slider_onMouseUp c s"
| "step (SaveOutcome v outcome c) s = saveThreshold_response v outcome c s"
| "step CopyClick s = copyLogsToClipboard s"
| "step CopyResolved s = copyLogs_then s"
| "step CopyRejected s = copyLogs_catch s"
| "step CopySuccessTimeout s = on_copy_success_timer s"
| "step (ClearClick c) s = clearLogs c s"
| "step (TabClick tab) s = selectTab tab s"
| "step (CaptureClick c) s = handleCapture c s"
| "step (MockCaptureTimeout c) s = handleCapture_timeout c s"
| "step (CaptureOutcome outcome c) s = handleCapture_response outcome c s"

text \<open>A run of events: the state it ends in, and the effects it issued, in order.\<close>

fun run :: "event list \<Rightarrow> Home \<Rightarrow> Home \<times> effect list" where
  "run [] s = (s, [])"
| "run (e # es) s =
     (let (s1, fx1) = step e s;
          (s2, fx2) = run es s1
      in (s2, fx1 @ fx2))"

text \<open>
  The events whose handlers call \<open>setIsCapturing(false)\<close>: the \<open>capture_result\<close> event,
  the timer of the simulated capture, a capture response with \<open>success\<close> false, and a
  rejected capture request.
\<close>

fun ends_capture :: "event \<Rightarrow> bool" where
  "ends_capture (CaptureResultEvent r c) = True"
| "ends_capture (MockCaptureTimeout c) = True"
| "ends_capture (CaptureOutcome (Resolved body) c) = (\<not> api_success body)"
| "ends_capture (CaptureOutcome (Rejected err) c) = True"
| "ends_capture e = False"

subsection \<open>The database schema\<close>

text \<open>
  The schema creates the settings table if it is not there (\<open>key TEXT UNIQUE\<close>,
  \<open>value TEXT\<close>, \<open>description TEXT\<close>) and seeds it with \<open>INSERT OR IGNORE\<close>: a row
  whose key is already in the table is skipped.
\<close>

record setting_row =
  setting_key :: string
  setting_value :: string
  setting_description :: string

definition insert_or_ignore :: "setting_row \<Rightarrow> setting_row list \<Rightarrow> setting_row list" where
  "insert_or_ignore r tbl =
     (if setting_key r \<in> set (map setting_key tbl) then tbl else tbl @ [r])"

definition default_settings :: "setting_row list" where
  "default_settings =
     [\<lparr> setting_key = ''camera_device_id'', setting_value = ''0'',
        setting_description = ''ID of the camera device to use'' \<rparr>,
      \<lparr> setting_key = ''model_path'', setting_value = ''models/default.pt'',
        setting_description = ''Path to the inference model'' \<rparr>,
      \<lparr> setting_key = ''confidence_threshold'', setting_value = ''0.5'',
        setting_description = ''Minimum confidence threshold for detections'' \<rparr>]"

definition schema_init :: "setting_row list \<Rightarrow> setting_row list" where
  "schema_init tbl = fold insert_or_ignore default_settings tbl"

definition select_value :: "setting_row list \<Rightarrow> string \<Rightarrow> string option" where
  "select_value tbl k = map_of (map (\<lambda>r. (setting_key r, setting_value r)) tbl) k"

text \<open>
  The value column is text. The number a plain decimal text denotes: digits, then
  optionally a point and more digits.
\<close>

definition digit_of :: "char \<Rightarrow> nat option" where
  "digit_of c =
     map_of [(CHR ''0'', 0), (CHR ''1'', 1), (CHR ''2'', 2), (CHR ''3'', 3), (CHR ''4'', 4),
             (CHR ''5'', 5), (CHR ''6'', 6), (CHR ''7'', 7), (CHR ''8'', 8), (CHR ''9'', 9)] c"

fun nat_of_digits :: "nat \<Rightarrow> string \<Rightarrow> nat option" where
  "nat_of_digits acc [] = Some acc"
| "nat_of_digits acc (c # cs) =
     (case digit_of c of None \<Rightarrow> None | Some d \<Rightarrow> nat_of_digits (10 * acc + d) cs)"

definition decimal_of_text :: "string \<Rightarrow> real option" where
  "decimal_of_text txt =
     (let ip = takeWhile (\<lambda>c. c \<noteq> CHR ''.'') txt;
          rest = dropWhile (\<lambda>c. c \<noteq> CHR ''.'') txt
      in if ip = [] then None
         else (case rest of
                 [] \<Rightarrow> map_option real (nat_of_digits 0 ip)
               | dot # fp \<Rightarrow>
                   if fp = [] then None
                   else (case (nat_of_digits 0 ip, nat_of_digits 0 fp) of
                           (Some i, Some f) \<Rightarrow> Some (real i + real f / 10 ^ length fp)
                         | _ \<Rightarrow> None)))"

subsection \<open>The settings endpoint of the middleware\<close>

text \<open>
  Modelled from the spec: the error with which the middleware, which is not in the
  repository, rejects a bad threshold or a malformed request.
\<close>

datatype api_failure = InvalidArgument

text \<open>
  Modelled from the spec: the settings store of the middleware, a key/value cache; the
  keys that matter here hold numbers.
\<close>

type_synonym settings_store = "string \<Rightarrow> real option"

text \<open>
  Modelled from the spec: the handler of \<open>POST /api/settings\<close>. It belongs to the
  middleware, which is not in the repository; the page only calls the endpoint. The
  spec's words: the request \<open>{confidence_threshold}\<close> is validated, threshold in
  \<open>[0,1]\<close>, else it fails with \<open>InvalidArgument\<close>, which is rejected synchronously with
  no state mutation; an accepted value is written through to the store under its key.
\<close>

definition post_settings :: "real \<Rightarrow> settings_store \<Rightarrow> (api_failure + unit) \<times> settings_store" where
  "post_settings v store =
     (if 0 \<le> v \<and> v \<le> 1 then (Inr (), store(''confidence_threshold'' \<mapsto> v))
      else (Inl InvalidArgument, store))"

subsection \<open>Shapes and relations the specification names\<close>

text \<open>
  The two shapes of a successful settings response: the one the page's types declare,
  \<open>{success: true, data: {settings: {confidence_threshold: v}}}\<close>, and the flat one,
  \<open>{success: true, settings: {confidence_threshold: v}}\<close>, whose \<open>settings\<close> key is not a
  field the page reads.
\<close>

definition settings_body_enveloped :: "real \<Rightarrow> SettingsData ApiResponse" where
  "settings_body_enveloped v =
     \<lparr> api_success = True,
       api_data = Some \<lparr> settings = \<lparr> confidence_threshold = Some v \<rparr> \<rparr>,
       api_error = None, api_other = [] \<rparr>"

definition settings_body_flat :: "real \<Rightarrow> SettingsData ApiResponse" where
  "settings_body_flat v =
     \<lparr> api_success = True, api_data = None, api_error = None,
       api_other = [(''settings'', JObj [(''confidence_threshold'', JNum v)])] \<rparr>"

text \<open>
  The verdict relation in the specification's words: the verdict is PASS if and only if
  the confidence is at least the threshold.
\<close>

definition spec_verdict_relation :: "CaptureResult \<Rightarrow> real \<Rightarrow> bool" where
  "spec_verdict_relation r t = ((result r = ''PASS'') = (t \<le> confidence r))"

text \<open>
  A successful capture response that carries the result as its payload: under \<open>data\<close>,
  where \<open>ApiResponse<CaptureResult>\<close> declares it, and under \<open>result\<close>, where the
  specification's \<open>{success, result?, error?}\<close> puts it.
\<close>

definition json_of_option :: "string \<Rightarrow> string option \<Rightarrow> (string \<times> json) list" where
  "json_of_option k v = (case v of None \<Rightarrow> [] | Some x \<Rightarrow> [(k, JStr x)])"

definition json_of_result :: "CaptureResult \<Rightarrow> json" where
  "json_of_result r =
     JObj ([(''success'', JBool (success r)),
            (''original_image'', JStr (original_image r)),
            (''processed_image'', JStr (processed_image r)),
            (''result'', JStr (result r)),
            (''confidence'', JNum (confidence r))] @
           json_of_option ''processed_image_url'' (processed_image_url r) @
           json_of_option ''error'' (error r))"

definition capture_body_with_result :: "CaptureResult \<Rightarrow> CaptureResult ApiResponse" where
  "capture_body_with_result r =
     \<lparr> api_success = True, api_data = Some r, api_error = None,
       api_other = [(''result'', json_of_result r)] \<rparr>"

text \<open>A successful capture response with no payload.\<close>

definition capture_body_ack :: "CaptureResult ApiResponse" where
  "capture_body_ack =
     \<lparr> api_success = True, api_data = None, api_error = None, api_other = [] \<rparr>"

text \<open>Clock readings for the worked examples.\<close>

definition clock_at :: "int \<Rightarrow> clock" where
  "clock_at t = \<lparr> now = t, iso = ''2025-01-01T00:00:00.000Z'' \<rparr>"

section \<open>Properties\<close>

subsection \<open>Runs\<close>

lemma run_append:
  "run (es @ fs) s =
     (let (s1, fx1) = run es s; (s2, fx2) = run fs s1 in (s2, fx1 @ fx2))"
  by (induction es arbitrary: s) (simp_all add: split_beta Let_def)

lemma run_log_messages:
  "run (map LogMessageEvent ls) s = (s\<lparr> logs := logs s @ ls \<rparr>, [])"
proof (induction ls arbitrary: s)
  case Nil
  show ?case by simp
next
  case (Cons l ls)
  show ?case
    by (simp add: Cons.IH on_log_message_def addLog_def)
qed

lemma slider_value_range:
  "slider_offers k \<Longrightarrow> 0 \<le> slider_value k \<and> slider_value k \<le> 1"
  by (simp add: slider_offers_def slider_value_def slider_min_def slider_max_def
      slider_step_def)

subsection \<open>The verdict of the simulated capture\<close>

text \<open>
  C1, as stated: the verdict of a capture is PASS if and only if the confidence is at
  least the threshold, and the test mode's simulated capture, the only code of the
  repository that produces a verdict, obeys this for every threshold. It does not.
  With the connection failed (test mode) and the slider at 0.9, a capture ends with the
  verdict PASS at confidence 0.85, below the threshold.
\<close>

theorem mock_verdict_counterexample:
  "(let s0 = fst (run [ConnectError ''timeout'' (clock_at 10), SliderChange 0.9,
                       SliderMouseUp (clock_at 20)] Home_init);
        s1 = fst (run [CaptureClick (clock_at 30), MockCaptureTimeout (clock_at 1530)] s0)
    in isTestMode s0 \<and> confidenceThreshold s1 = 0.9 \<and>
       captureResult s1 = Some mockResult \<and>
       result mockResult = ''PASS'' \<and> confidence mockResult = 0.85 \<and>
       \<not> spec_verdict_relation mockResult (confidenceThreshold s1))"
  by (simp add: on_connect_error_def slider_onChange_def slider_onMouseUp_def
      saveThreshold_def handleCapture_def handleCapture_timeout_def addLog_def
      Home_init_def mockResult_def spec_verdict_relation_def Let_def)

text \<open>
  C1, amended: in test mode a capture sets the timer only, and when the timer fires the
  page records a made-up result whose verdict is PASS and whose confidence is 0.85,
  whatever the threshold, which the capture leaves as it was. So the simulated verdict
  obeys PASS-iff-confidence-at-least-threshold exactly when the threshold is at most
  0.85.
\<close>

theorem mock_verdict_ignores_threshold:
  "isTestMode s \<Longrightarrow> \<not> isCapturing s \<Longrightarrow>
   (let (s1, fx) = run [CaptureClick c1, MockCaptureTimeout c2] s
    in fx = [SetTimeout MockCaptureTimer 1500] \<and>
       captureResult s1 = Some mockResult \<and>
       result mockResult = ''PASS'' \<and> confidence mockResult = 0.85 \<and>
       confidenceThreshold s1 = confidenceThreshold s \<and>
       spec_verdict_relation mockResult (confidenceThreshold s1)
         = (confidenceThreshold s \<le> 0.85)) \<and>
   captureResult (fst (step (MockCaptureTimeout c2) s')) = Some mockResult"
  by (simp add: handleCapture_def handleCapture_timeout_def addLog_def
      mockResult_def spec_verdict_relation_def Let_def)

theorem mock_verdict_ignores_threshold_witness:
  "(let s = fst (step (ConnectError ''timeout'' (clock_at 10)) Home_init);
        (s1, fx) = run [CaptureClick (clock_at 30), MockCaptureTimeout (clock_at 1530)] s
    in isTestMode s \<and> \<not> isCapturing s \<and>
       fx = [SetTimeout MockCaptureTimer 1500] \<and>
       captureResult s1 = Some mockResult \<and>
       confidenceThreshold s1 = 0.5 \<and>
       spec_verdict_relation mockResult (confidenceThreshold s1))"
proof -
  define s where "s = fst (step (ConnectError ''timeout'' (clock_at 10)) Home_init)"
  have mode: "isTestMode s" and idle: "\<not> isCapturing s"
    and thr: "confidenceThreshold s = 0.5"
    by (simp_all add: s_def on_connect_error_def addLog_def Home_init_def)
  from mock_verdict_ignores_threshold [OF mode idle, of "clock_at 30" "clock_at 1530" s]
  have "(let (s1, fx) = run [CaptureClick (clock_at 30), MockCaptureTimeout (clock_at 1530)] s
         in isTestMode s \<and> \<not> isCapturing s \<and>
            fx = [SetTimeout MockCaptureTimer 1500] \<and>
            captureResult s1 = Some mockResult \<and>
            confidenceThreshold s1 = 0.5 \<and>
            spec_verdict_relation mockResult (confidenceThreshold s1))"
    using mode idle thr by (simp add: split_beta)
  then show ?thesis
    unfolding s_def Let_def .
qed

subsection \<open>Loading the settings\<close>

text \<open>
  What \<open>loadSettings\<close> reads is the \<open>ApiResponse\<close> envelope: on a successful response
  whose \<open>data\<close> holds \<open>settings.confidence_threshold\<close> it sets the displayed threshold
  to that value and changes nothing else.
\<close>

lemma loadSettings_reads_envelope:
  "(api_success body \<and> api_data body = Some d \<and> confidence_threshold (settings d) = Some v
      \<longrightarrow> step (SettingsOutcome (Resolved body) c) s = (s\<lparr> confidenceThreshold := v \<rparr>, [])) \<and>
   step (SettingsOutcome (Resolved (settings_body_enveloped v)) c) s
      = (s\<lparr> confidenceThreshold := v \<rparr>, [])"
  by (simp add: loadSettings_def settings_body_enveloped_def)

text \<open>
  C2 says that a successful \<open>GET /api/settings\<close> response carries the configuration
  under a top-level \<open>settings\<close> key, \<open>{success, settings: {confidence_threshold, ...}}\<close>,
  and that \<open>loadSettings\<close> sets the displayed threshold to the \<open>confidence_threshold\<close>
  of a response of that shape. The page does not: it looks for the settings under
  \<open>data\<close>, so on a response of the stated shape, whatever threshold it carries, the
  optional chain is \<open>undefined\<close> and \<open>loadSettings\<close> changes nothing, logs nothing and
  issues nothing. On the freshly mounted page the response with threshold 0.7 leaves
  the displayed threshold at its initial 0.5. The earlier version of the page reads
  \<open>response.data.settings.confidence_threshold\<close>, the stated shape.
\<close>

theorem loadSettings_flat_body_ignored:
  "step (SettingsOutcome (Resolved (settings_body_flat v)) c) s = (s, []) \<and>
   step (SettingsOutcome (Resolved (settings_body_flat 0.7)) (clock_at 10)) Home_init
     = (Home_init, []) \<and>
   confidenceThreshold
     (fst (step (SettingsOutcome (Resolved (settings_body_flat 0.7)) (clock_at 10)) Home_init))
     = 0.5 \<and>
   confidenceThreshold
     (fst (step (SettingsOutcome (Resolved (settings_body_flat 0.7)) (clock_at 10)) Home_init))
     \<noteq> 0.7"
  by (simp add: loadSettings_def settings_body_flat_def Home_init_def)

subsection \<open>The range of the threshold\<close>

text \<open>
  C3: a \<open>confidence_threshold\<close> outside \<open>[0,1]\<close> posted to \<open>/api/settings\<close> is rejected
  with \<open>InvalidArgument\<close> and the stored settings stay as they were; and every value
  the page's slider offers lies in \<open>[0,1]\<close>, and it is that value which the slider's
  \<open>onMouseUp\<close> hands to \<open>saveThreshold\<close> and which is posted (in test mode nothing is
  posted).
\<close>

theorem threshold_range:
  "(v < 0 \<or> 1 < v \<longrightarrow> post_settings v store = (Inl InvalidArgument, store)) \<and>
   (slider_offers k \<longrightarrow>
      0 \<le> slider_value k \<and> slider_value k \<le> 1 \<and>
      snd (run [SliderChange (slider_value k), SliderMouseUp c] s)
        = (if isTestMode s then [] else [HttpPostSettings (slider_value k)]))"
  using slider_value_range [of k]
  by (auto simp add: post_settings_def slider_onChange_def slider_onMouseUp_def
      saveThreshold_def)

theorem threshold_range_witness:
  "(1::real) < 1.5 \<and>
   post_settings 1.5 (Map.empty(''confidence_threshold'' \<mapsto> 0.5))
     = (Inl InvalidArgument, Map.empty(''confidence_threshold'' \<mapsto> 0.5)) \<and>
   slider_offers 37 \<and>
   slider_value 37 = 0.37 \<and>
   snd (run [SliderChange (slider_value 37), SliderMouseUp (clock_at 20)] Home_init)
     = [HttpPostSettings (slider_value 37)]"
proof -
  have off: "slider_offers 37" and val: "slider_value 37 = 0.37"
    by (simp_all add: slider_offers_def slider_value_def slider_min_def slider_max_def
        slider_step_def)
  have live: "\<not> isTestMode Home_init"
    by (simp add: Home_init_def)
  have out: "(1::real) < 1.5"
    by simp
  note inst = threshold_range
    [of "1.5" "Map.empty(''confidence_threshold'' \<mapsto> 0.5)" 37 "clock_at 20" Home_init]
  from inst out have rejected:
    "post_settings 1.5 (Map.empty(''confidence_threshold'' \<mapsto> 0.5))
       = (Inl InvalidArgument, Map.empty(''confidence_threshold'' \<mapsto> 0.5))"
    by blast
  from inst off live have sent:
    "snd (run [SliderChange (slider_value 37), SliderMouseUp (clock_at 20)] Home_init)
       = [HttpPostSettings (slider_value 37)]"
    by presburger
  from out rejected off val sent show ?thesis
    by blast
qed

subsection \<open>One capture at a time\<close>

text \<open>
  C4: while a capture is in progress (\<open>isCapturing\<close> is true) the capture trigger does
  nothing, however often it is invoked: it sends no request, appends no log entry and
  leaves every field of the state, the start time included, as it was. The flag is
  cleared only by a terminal outcome of the capture.
\<close>

theorem capture_click_ignored_while_capturing:
  "isCapturing s \<Longrightarrow>
   step (CaptureClick c) s = (s, []) \<and> run (map CaptureClick cs) s = (s, [])"
  by (induction cs) (simp_all add: handleCapture_def)

theorem capture_click_ignored_while_capturing_witness:
  "isCapturing (fst (step (CaptureClick (clock_at 5)) Home_init)) \<and>
   snd (step (CaptureClick (clock_at 5)) Home_init) = [HttpPostCapture 0.5] \<and>
   step (CaptureClick (clock_at 6)) (fst (step (CaptureClick (clock_at 5)) Home_init))
     = (fst (step (CaptureClick (clock_at 5)) Home_init), []) \<and>
   run (map CaptureClick [clock_at 6, clock_at 7]) (fst (step (CaptureClick (clock_at 5)) Home_init))
     = (fst (step (CaptureClick (clock_at 5)) Home_init), [])"
proof -
  have busy: "isCapturing (fst (step (CaptureClick (clock_at 5)) Home_init))"
    by (simp add: handleCapture_def Home_init_def addLog_def)
  have sent: "snd (step (CaptureClick (clock_at 5)) Home_init) = [HttpPostCapture 0.5]"
    by (simp add: handleCapture_def Home_init_def)
  from capture_click_ignored_while_capturing
         [OF busy, of "clock_at 6" "[clock_at 6, clock_at 7]"]
    busy sent
  show ?thesis
    by blast
qed

text \<open>
  The flag stays set until an event that ends the capture: every other event leaves a
  capture in progress in progress.
\<close>

lemma capturing_until_ended:
  "isCapturing s \<Longrightarrow> \<not> ends_capture e \<Longrightarrow> isCapturing (fst (step e s))"
proof (cases e)
  case (SettingsOutcome outcome c)
  assume "isCapturing s"
  with SettingsOutcome show ?thesis
    by (simp add: loadSettings_def addLog_def split: axios.split option.split)
next
  case (SaveOutcome v outcome c)
  assume "isCapturing s"
  with SaveOutcome show ?thesis
    by (simp add: saveThreshold_response_def addLog_def split: axios.split)
next
  case (CaptureOutcome outcome c)
  assume "isCapturing s" and "\<not> ends_capture e"
  with CaptureOutcome show ?thesis
    by (cases outcome) (simp_all add: handleCapture_response_def)
qed (simp_all add: on_connect_def on_disconnect_def on_connect_error_def
      on_backend_status_timer_def on_status_update_def on_log_message_def
      on_log_history_def on_capture_started_def slider_onChange_def slider_onMouseUp_def
      saveThreshold_def copyLogsToClipboard_def copyLogs_then_def copyLogs_catch_def
      on_copy_success_timer_def clearLogs_def selectTab_def handleCapture_def addLog_def)

subsection \<open>Failure paths and the log list\<close>

text \<open>
  C5 says that every failure path of the page appends an entry to the log list. Two
  paths do not. When the clipboard write fails, \<open>copyLogsToClipboard\<close> writes to the
  console only: the log list, like the rest of the state, is as before. And when the
  settings response says \<open>success: false\<close>, \<open>loadSettings\<close> does nothing at all. The
  other failure paths (a rejected settings request, a failed or rejected capture
  request, a failed or rejected save) each call \<open>addLog\<close>.
\<close>

theorem copy_failure_appends_no_log:
  "step CopyRejected s = (s, [ConsoleError ''Failed to copy logs:'']) \<and>
   logs (fst (step CopyRejected s)) = logs s \<and>
   step (SettingsOutcome
           (Resolved \<lparr> api_success = False, api_data = None, api_error = Some e,
                       api_other = [] \<rparr>) c) s
     = (s, [])"
  by (simp add: copyLogs_catch_def loadSettings_def)

subsection \<open>The size of the log list\<close>

text \<open>
  C6, as stated: the log list is a bounded ring, so that some capacity bounds its size
  after every sequence of appends. No capacity does: \<open>capacity + 1\<close> log messages
  received on the freshly mounted page leave \<open>capacity + 1\<close> entries.
\<close>

theorem log_list_bound_counterexample:
  "\<not> (\<exists>capacity. \<forall>ls.
         length (logs (fst (run (map LogMessageEvent ls) Home_init))) \<le> capacity)"
proof
  assume "\<exists>capacity. \<forall>ls.
            length (logs (fst (run (map LogMessageEvent ls) Home_init))) \<le> capacity"
  then obtain capacity where bound:
    "\<And>ls. length (logs (fst (run (map LogMessageEvent ls) Home_init))) \<le> capacity"
    by blast
  define ls where
    "ls = replicate (Suc capacity)
            \<lparr> timestamp = [], level = ''INFO'', message = [], module = None \<rparr>"
  have len: "length ls = Suc capacity"
    by (simp add: ls_def)
  have "length (logs (fst (run (map LogMessageEvent ls) Home_init))) = length ls"
    by (simp add: run_log_messages Home_init_def)
  with bound [of ls] len show False by simp
qed

text \<open>
  C6, amended: the log list has no capacity bound and nothing is evicted. Appending an
  entry puts it at the end and keeps every earlier entry in place, so after a sequence
  of appends the list is the old list followed by the appended entries, and its size
  has grown by their number.
\<close>

theorem log_list_grows_without_bound:
  "logs (addLog l s) = logs s @ [l] \<and>
   logs (fst (run (map LogMessageEvent ls) s)) = logs s @ ls \<and>
   length (logs (fst (run (map LogMessageEvent ls) s))) = length (logs s) + length ls"
  by (simp add: run_log_messages addLog_def)

subsection \<open>The response to a capture request\<close>

text \<open>
  C7, as stated: the page supports both modes of \<open>POST /api/capture\<close>, and when the
  successful response carries the result, the page records it and clears the
  in-progress flag without waiting for the event stream. It does neither: after a
  capture is triggered on the freshly mounted page and the response arrives with the
  result as its payload, the capture is still in progress and no result is recorded.
\<close>

theorem capture_response_with_result_counterexample:
  "(let s1 = fst (run [CaptureClick (clock_at 30),
                       CaptureOutcome (Resolved (capture_body_with_result mockResult))
                         (clock_at 900)]
                   Home_init)
    in isCapturing s1 \<and> captureResult s1 = None)"
  by (simp add: handleCapture_def handleCapture_response_def capture_body_with_result_def
      addLog_def Home_init_def)

text \<open>
  C7, amended: the page supports the mode in which the response is an acknowledgement
  and the result arrives on the event stream. A successful response, with or without a
  payload, changes nothing and issues nothing, so a capture in progress stays in
  progress and no result is taken from the response; the \<open>capture_result\<close> event that
  follows records the result and clears the in-progress flag.
\<close>

theorem capture_response_success_ignored:
  "api_success body \<Longrightarrow>
   step (CaptureOutcome (Resolved body) c) s = (s, []) \<and>
   (let s2 = fst (run [CaptureOutcome (Resolved body) c, CaptureResultEvent r c'] s)
    in captureResult s2 = Some r \<and> \<not> isCapturing s2)"
  by (simp add: handleCapture_response_def on_capture_result_def addLog_def Let_def
      split: option.split)

theorem capture_response_success_ignored_witness:
  "(let s = fst (step (CaptureClick (clock_at 30)) Home_init);
        body = capture_body_with_result mockResult;
        s1 = fst (step (CaptureOutcome (Resolved body) (clock_at 900)) s);
        s2 = fst (run [CaptureOutcome (Resolved body) (clock_at 900),
                       CaptureResultEvent mockResult (clock_at 1200)] s)
    in isCapturing s \<and> captureResult s = None \<and> api_success body \<and>
       step (CaptureOutcome (Resolved body) (clock_at 900)) s = (s, []) \<and>
       isCapturing s1 \<and> captureResult s1 = None \<and>
       captureResult s2 = Some mockResult \<and> \<not> isCapturing s2) \<and>
   (let s = fst (step (CaptureClick (clock_at 30)) Home_init);
        s1 = fst (step (CaptureOutcome (Resolved capture_body_ack) (clock_at 900)) s);
        s2 = fst (run [CaptureOutcome (Resolved capture_body_ack) (clock_at 900),
                       CaptureResultEvent mockResult (clock_at 1200)] s)
    in api_success capture_body_ack \<and>
       step (CaptureOutcome (Resolved capture_body_ack) (clock_at 900)) s = (s, []) \<and>
       isCapturing s1 \<and> captureResult s1 = None \<and>
       captureResult s2 = Some mockResult \<and> \<not> isCapturing s2)"
proof -
  define s where "s = fst (step (CaptureClick (clock_at 30)) Home_init)"
  have busy: "isCapturing s" and none: "captureResult s = None"
    by (simp_all add: s_def handleCapture_def addLog_def Home_init_def)
  have full: "api_success (capture_body_with_result mockResult)"
    by (simp add: capture_body_with_result_def)
  have ack: "api_success capture_body_ack"
    by (simp add: capture_body_ack_def)
  note with_result = capture_response_success_ignored
    [OF full, of "clock_at 900" s mockResult "clock_at 1200"]
  note with_ack = capture_response_success_ignored
    [OF ack, of "clock_at 900" s mockResult "clock_at 1200"]
  from with_result have stay1:
    "step (CaptureOutcome (Resolved (capture_body_with_result mockResult)) (clock_at 900)) s
       = (s, [])"
    by blast
  from with_ack have stay2:
    "step (CaptureOutcome (Resolved capture_body_ack) (clock_at 900)) s = (s, [])"
    by blast
  from with_result have done1:
    "captureResult
       (fst (run [CaptureOutcome (Resolved (capture_body_with_result mockResult)) (clock_at 900),
                  CaptureResultEvent mockResult (clock_at 1200)] s)) = Some mockResult \<and>
     \<not> isCapturing
       (fst (run [CaptureOutcome (Resolved (capture_body_with_result mockResult)) (clock_at 900),
                  CaptureResultEvent mockResult (clock_at 1200)] s))"
    unfolding Let_def by blast
  from with_ack have done2:
    "captureResult
       (fst (run [CaptureOutcome (Resolved capture_body_ack) (clock_at 900),
                  CaptureResultEvent mockResult (clock_at 1200)] s)) = Some mockResult \<and>
     \<not> isCapturing
       (fst (run [CaptureOutcome (Resolved capture_body_ack) (clock_at 900),
                  CaptureResultEvent mockResult (clock_at 1200)] s))"
    unfolding Let_def by blast
  from busy none full ack stay1 stay2 done1 done2 show ?thesis
    unfolding Let_def s_def [symmetric] by simp
qed

subsection \<open>The capture result event\<close>

text \<open>
  C8: on every \<open>capture_result\<close> event the page appends exactly one log entry, of level
  SUCCESS when the event's \<open>success\<close> is true and of level ERROR otherwise, stores the
  result, and leaves \<open>isCapturing\<close> false.
\<close>

theorem capture_result_is_terminal:
  "(let s' = fst (step (CaptureResultEvent r c) s)
    in logs s' = logs s @
         [\<lparr> timestamp = iso c, level = (if success r then ''SUCCESS'' else ''ERROR''),
            message = capture_result_message r, module = Some ''capture'' \<rparr>] \<and>
       captureResult s' = Some r \<and> isCapturing s' = False)"
  by (simp add: on_capture_result_def addLog_def Let_def split: option.split)

subsection \<open>The log history event\<close>

text \<open>
  C9: on a \<open>log_history\<close> event the log list becomes the logs of the payload, in the
  payload's order, and no other field of the state changes; nothing is issued. Whatever
  the page had logged before, whichever events came first, is gone.
\<close>

theorem log_history_replaces_logs:
  "step (LogHistory ls) s = (s\<lparr> logs := ls \<rparr>, []) \<and>
   logs (fst (run (es @ [LogHistory ls]) s)) = ls"
  by (simp add: run_append on_log_history_def split_beta)

subsection \<open>The initial threshold\<close>

text \<open>
  C10: the threshold of the freshly mounted page is 0.5, and the schema run on an empty
  database seeds the setting \<open>confidence_threshold\<close> with the text \<open>0.5\<close>, which denotes
  the same number.
\<close>

theorem initial_threshold_matches_seed:
  "confidenceThreshold (fst mount) = 0.5 \<and>
   select_value (schema_init []) ''confidence_threshold'' = Some ''0.5'' \<and>
   decimal_of_text ''0.5'' = Some (confidenceThreshold (fst mount))"
  by (simp add: mount_def Home_init_def select_value_def schema_init_def default_settings_def
      insert_or_ignore_def decimal_of_text_def digit_of_def)

end
